theory Spec2Isabelle
  imports Main "HOL-Library.Word"
begin

unbundle bit_operations_syntax

section \<open>Values of the host language\<close>

text \<open>
  The token library is JavaScript. Its values are modelled by \<open>jsval\<close>: numbers are
  the integers together with the three non-finite doubles (rounding of doubles beyond
  the safe integers is not modelled), text is held as its UTF-8 code units (one \<open>char\<close>
  per byte), an object is its list of own enumerable properties in property order, and
  \<open>Builtin\<close> stands for a function or object that a plain object inherits from
  \<open>Object.prototype\<close>.
\<close>

type_synonym byte = "8 word"

datatype jsnum = Fin int | PosInf | NegInf | NaN

datatype jsval =
    Undefined
  | Null
  | Bool bool
  | Num jsnum
  | Str string
  | Arr "jsval list"
  | Obj "(string \<times> jsval) list"
  | Builtin string

type_synonym obj = "(string \<times> jsval) list"

text \<open>A Buffer (raw bytes) or a string, the two kinds of data the transcoders handle.\<close>

datatype bindata = Buf "byte list" | Txt string

text \<open>
  Errors: \<open>TWTError\<close> carries the message and the \<open>code\<close> that \<open>createError\<close> attaches;
  \<open>TypeError\<close>, \<open>SyntaxError\<close> and \<open>RangeError\<close> are the host's own exceptions. Where the source
  interpolates the message of a caught exception, only the fixed prefix is kept.
\<close>

datatype code = ESECRET | EVALIDAT | EEXPIRESAT | ESERIALIZE | EENCRYPTION | EPARSE | ETIME

datatype error = TWTError string code | TypeError | SyntaxError | RangeError

definition createError :: "string \<Rightarrow> code \<Rightarrow> error" where
  "createError message c = TWTError message c"

section \<open>Base64 of the host's Buffer\<close>

text \<open>
  \<open>buffer.toString('base64')\<close> is standard base64 with \<open>=\<close> padding.
  \<open>Buffer.from(text, 'base64')\<close> is lenient: it accepts both alphabets, skips every
  character outside them, stops at the first \<open>=\<close>, and turns a trailing group of two
  or three sextets into one or two bytes.
\<close>

definition utf8_encode :: "string \<Rightarrow> byte list" where
  "utf8_encode s = map (\<lambda>c. word_of_nat (of_char c)) s"

definition utf8_decode :: "byte list \<Rightarrow> string" where
  "utf8_decode bs = map (\<lambda>b. char_of (unat b)) bs"

definition b64_char :: "nat \<Rightarrow> char" where
  "b64_char n =
     (if n < 26 then char_of (65 + n)
      else if n < 52 then char_of (71 + n)
      else if n < 62 then char_of (n - 4)
      else if n = 62 then CHR ''+'' else CHR ''/'')"

definition unbase64 :: "char \<Rightarrow> nat option" where
  "unbase64 c =
     (let x = (of_char c :: nat) in
      if 65 \<le> x \<and> x \<le> 90 then Some (x - 65)
      else if 97 \<le> x \<and> x \<le> 122 then Some (x - 71)
      else if 48 \<le> x \<and> x \<le> 57 then Some (x + 4)
      else if c = CHR ''+'' \<or> c = CHR ''-'' then Some 62
      else if c = CHR ''/'' \<or> c = CHR ''_'' then Some 63
      else None)"

fun base64_encode :: "byte list \<Rightarrow> string" where
  "base64_encode (a # b # c # rest) =
     [b64_char (unat a div 4),
      b64_char ((unat a mod 4) * 16 + unat b div 16),
      b64_char ((unat b mod 16) * 4 + unat c div 64),
      b64_char (unat c mod 64)] @ base64_encode rest"
| "base64_encode [a, b] =
     [b64_char (unat a div 4),
      b64_char ((unat a mod 4) * 16 + unat b div 16),
      b64_char ((unat b mod 16) * 4),
      CHR ''='']"
| "base64_encode [a] =
     [b64_char (unat a div 4), b64_char ((unat a mod 4) * 16), CHR ''='', CHR ''='']"
| "base64_encode [] = []"

definition b64_sextets :: "string \<Rightarrow> nat list" where
  "b64_sextets s = List.map_filter unbase64 (takeWhile (\<lambda>c. c \<noteq> CHR ''='') s)"

fun b64_groups :: "nat list \<Rightarrow> byte list" where
  "b64_groups (a # b # c # d # rest) =
     [word_of_nat (a * 4 + b div 16),
      word_of_nat ((b mod 16) * 16 + c div 4),
      word_of_nat ((c mod 4) * 64 + d)] @ b64_groups rest"
| "b64_groups [a, b, c] =
     [word_of_nat (a * 4 + b div 16), word_of_nat ((b mod 16) * 16 + c div 4)]"
| "b64_groups [a, b] = [word_of_nat (a * 4 + b div 16)]"
| "b64_groups [a] = []"
| "b64_groups [] = []"

definition base64_decode :: "string \<Rightarrow> byte list" where
  "base64_decode s = b64_groups (b64_sextets s)"

section \<open>The transcoding layer (crypto-utils)\<close>

definition URL_SAFE_ENCODING_KEYS :: "char \<Rightarrow> char" where
  "URL_SAFE_ENCODING_KEYS m =
     (if m = CHR ''+'' then CHR ''-''
      else if m = CHR ''/'' then CHR ''_''
      else if m = CHR ''-'' then CHR ''+''
      else if m = CHR ''_'' then CHR ''/''
      else m)"

definition toBase64 :: "bindata \<Rightarrow> string" where
  "toBase64 d = (case d of Buf b \<Rightarrow> base64_encode b | Txt s \<Rightarrow> base64_encode (utf8_encode s))"

text \<open>\<open>encodedData.replace(/[+/]/g, m => URL_SAFE_ENCODING_KEYS[m])\<close>\<close>

definition convertBase64ToURLSafe :: "string \<Rightarrow> string" where
  "convertBase64ToURLSafe encodedData =
     map (\<lambda>m. if m = CHR ''+'' \<or> m = CHR ''/'' then URL_SAFE_ENCODING_KEYS m else m) encodedData"

text \<open>\<open>encodedData.replace(/[_-]/g, m => URL_SAFE_ENCODING_KEYS[m])\<close>\<close>

definition convertBase64FromURLSafe :: "string \<Rightarrow> string" where
  "convertBase64FromURLSafe encodedData =
     map (\<lambda>m. if m = CHR ''_'' \<or> m = CHR ''-'' then URL_SAFE_ENCODING_KEYS m else m) encodedData"

definition toURLSafeBase64 :: "bindata \<Rightarrow> string" where
  "toURLSafeBase64 d = convertBase64ToURLSafe (toBase64 d)"

text \<open>
  \<open>fromURLSafeBase64(data, encoding)\<close>: a value that is not a string has no
  \<open>replace\<close> method, so the call raises a TypeError. The encoding is \<open>None\<close> when
  omitted; the only encoding the library passes is \<open>'utf8'\<close>.
\<close>

datatype encoding = Utf8

definition fromURLSafeBase64 :: "jsval \<Rightarrow> encoding option \<Rightarrow> error + bindata" where
  "fromURLSafeBase64 d enc =
     (case d of
        Str s \<Rightarrow>
          (let buffer = base64_decode (convertBase64FromURLSafe s) in
           case enc of None \<Rightarrow> Inr (Buf buffer) | Some Utf8 \<Rightarrow> Inr (Txt (utf8_decode buffer)))
      | _ \<Rightarrow> Inl TypeError)"

section \<open>Transcoding round trip\<close>

lemma b64_char_not_pad: "n < 64 \<Longrightarrow> b64_char n \<noteq> CHR ''=''"
  by (auto simp: b64_char_def char_of_eq_iff take_bit_eq_mod)

lemma unbase64_b64_char: "n < 64 \<Longrightarrow> unbase64 (b64_char n) = Some n"
  by (auto simp: b64_char_def unbase64_def Let_def)

lemma sextets_cons_valid:
  "n < 64 \<Longrightarrow> b64_sextets (b64_char n # s) = n # b64_sextets s"
  by (simp add: b64_sextets_def List.map_filter_simps b64_char_not_pad unbase64_b64_char)

lemma sextets_pad: "b64_sextets (CHR ''='' # s) = []"
  by (simp add: b64_sextets_def List.map_filter_simps)

lemma byte_lt: "unat (a::byte) < 256"
  using unsigned_less [of a] by simp

lemma sextet_bounds:
  "unat (a::byte) div 4 < 64"
  "(unat (a::byte) mod 4) * 16 + unat (b::byte) div 16 < 64"
  "(unat (b::byte) mod 16) * 4 + unat (c::byte) div 64 < 64"
  "unat (c::byte) mod 64 < 64"
  "(unat (b::byte) mod 16) * 4 < 64"
  "(unat (a::byte) mod 4) * 16 < 64"
  using byte_lt [of a] byte_lt [of b] byte_lt [of c] by simp_all

lemma base64_decode_encode: "base64_decode (base64_encode b) = b"
proof (induction b rule: base64_encode.induct)
  case (1 a b c rest)
  then show ?case
    unfolding base64_decode_def
    using byte_lt [of a] byte_lt [of b] byte_lt [of c]
    by (simp add: sextets_cons_valid sextet_bounds del: of_nat_add of_nat_mult)
next
  case (2 a b)
  then show ?case
    unfolding base64_decode_def
    using byte_lt [of a] byte_lt [of b]
    by (simp add: sextets_cons_valid sextets_pad sextet_bounds del: of_nat_add of_nat_mult)
next
  case (3 a)
  then show ?case
    unfolding base64_decode_def
    using byte_lt [of a]
    by (simp add: sextets_cons_valid sextets_pad sextet_bounds del: of_nat_add of_nat_mult)
next
  case 4
  then show ?case
    by (simp add: base64_decode_def b64_sextets_def List.map_filter_simps)
qed

lemma b64_char_not_url:
  "n < 64 \<Longrightarrow> b64_char n \<noteq> CHR ''-'' \<and> b64_char n \<noteq> CHR ''_''"
  by (auto simp: b64_char_def char_of_eq_iff take_bit_eq_mod)

lemma encode_chars:
  "c \<in> set (base64_encode b) \<Longrightarrow> c \<noteq> CHR ''-'' \<and> c \<noteq> CHR ''_''"
  by (induction b rule: base64_encode.induct) (auto simp: b64_char_not_url sextet_bounds)

lemma from_to_URLSafe:
  "convertBase64FromURLSafe (convertBase64ToURLSafe (base64_encode b)) = base64_encode b"
  unfolding convertBase64FromURLSafe_def convertBase64ToURLSafe_def map_map
  by (rule map_idI) (auto simp: URL_SAFE_ENCODING_KEYS_def o_def dest: encode_chars)



section \<open>Primitives of the host language\<close>

text \<open>Truthiness, as \<open>!x\<close>, \<open>x || y\<close> and \<open>x && y\<close> test it.\<close>

definition truthy :: "jsval \<Rightarrow> bool" where
  "truthy v =
     (case v of
        Undefined \<Rightarrow> False
      | Null \<Rightarrow> False
      | Bool b \<Rightarrow> b
      | Num n \<Rightarrow> (case n of Fin i \<Rightarrow> i \<noteq> 0 | NaN \<Rightarrow> False | _ \<Rightarrow> True)
      | Str s \<Rightarrow> s \<noteq> []
      | _ \<Rightarrow> True)"

text \<open>\<open>isFinite\<close> on a number.\<close>

definition isFinite :: "jsnum \<Rightarrow> bool" where
  "isFinite n = (case n of Fin i \<Rightarrow> True | _ \<Rightarrow> False)"

text \<open>The comparisons and the arithmetic of doubles, on the integers and the non-finite values.\<close>

fun num_lt :: "jsnum \<Rightarrow> jsnum \<Rightarrow> bool" where
  "num_lt NaN b = False"
| "num_lt a NaN = False"
| "num_lt (Fin a) (Fin b) = (a < b)"
| "num_lt a PosInf = (a \<noteq> PosInf)"
| "num_lt NegInf b = (b \<noteq> NegInf)"
| "num_lt a b = False"

definition num_gt :: "jsnum \<Rightarrow> jsnum \<Rightarrow> bool" where
  "num_gt a b = num_lt b a"

definition num_le :: "jsnum \<Rightarrow> jsnum \<Rightarrow> bool" where
  "num_le a b = (a \<noteq> NaN \<and> b \<noteq> NaN \<and> (num_lt a b \<or> a = b))"

fun num_neg :: "jsnum \<Rightarrow> jsnum" where
  "num_neg (Fin a) = Fin (- a)"
| "num_neg PosInf = NegInf"
| "num_neg NegInf = PosInf"
| "num_neg NaN = NaN"

fun num_add :: "jsnum \<Rightarrow> jsnum \<Rightarrow> jsnum" where
  "num_add NaN b = NaN"
| "num_add a NaN = NaN"
| "num_add (Fin a) (Fin b) = Fin (a + b)"
| "num_add PosInf NegInf = NaN"
| "num_add NegInf PosInf = NaN"
| "num_add PosInf b = PosInf"
| "num_add NegInf b = NegInf"
| "num_add a b = b"

definition num_sub :: "jsnum \<Rightarrow> jsnum \<Rightarrow> jsnum" where
  "num_sub a b = num_add a (num_neg b)"

text \<open>\<open>Math.abs\<close>\<close>

fun num_abs :: "jsnum \<Rightarrow> jsnum" where
  "num_abs (Fin a) = Fin \<bar>a\<bar>"
| "num_abs PosInf = PosInf"
| "num_abs NegInf = PosInf"
| "num_abs NaN = NaN"

subsection \<open>Numbers as text\<close>

definition digit_char :: "nat \<Rightarrow> char" where
  "digit_char d = (if d < 10 then char_of (48 + d) else char_of (87 + d))"

definition digit_val :: "char \<Rightarrow> nat option" where
  "digit_val c =
     (let x = (of_char c :: nat) in
      if 48 \<le> x \<and> x \<le> 57 then Some (x - 48)
      else if 97 \<le> x \<and> x \<le> 122 then Some (x - 87)
      else if 65 \<le> x \<and> x \<le> 90 then Some (x - 55)
      else None)"

function nat_digits :: "nat \<Rightarrow> nat \<Rightarrow> string" where
  "nat_digits radix n =
     (if radix < 2 \<or> n < radix then [digit_char n]
      else nat_digits radix (n div radix) @ [digit_char (n mod radix)])"
  by pat_completeness auto
termination
  by (relation "measure snd") auto

declare nat_digits.simps [simp del]

text \<open>\<open>number.toString(radix)\<close>; integers are written out in full.\<close>

definition Number_toString :: "nat \<Rightarrow> jsnum \<Rightarrow> string" where
  "Number_toString radix n =
     (case n of
        Fin i \<Rightarrow> (if i < 0 then CHR ''-'' # nat_digits radix (nat (- i)) else nat_digits radix (nat i))
      | PosInf \<Rightarrow> ''Infinity''
      | NegInf \<Rightarrow> ''-Infinity''
      | NaN \<Rightarrow> ''NaN'')"

fun join_with :: "string \<Rightarrow> string list \<Rightarrow> string" where
  "join_with sep [] = []"
| "join_with sep [x] = x"
| "join_with sep (x # y # ys) = x @ sep @ join_with sep (y # ys)"

text \<open>
  The text of a value inherited from \<open>Object.prototype\<close>: the prototype itself under
  \<open>__proto__\<close>, a native function under every other name.
\<close>

definition Object_prototype_names :: "string list" where
  "Object_prototype_names =
     [''constructor'', ''__defineGetter__'', ''__defineSetter__'', ''hasOwnProperty'',
      ''__lookupGetter__'', ''__lookupSetter__'', ''isPrototypeOf'', ''propertyIsEnumerable'',
      ''toString'', ''valueOf'', ''__proto__'', ''toLocaleString'']"

definition builtin_text :: "string \<Rightarrow> string" where
  "builtin_text k =
     (if k = ''__proto__'' then ''[object Object]''
      else ''function '' @ (if k = ''constructor'' then ''Object'' else k) @ ''() { [native code] }'')"

text \<open>The conversion of a value to a string (\<open>String(x)\<close>, \<open>'' + x\<close>, a property key).\<close>

fun ToString :: "jsval \<Rightarrow> string" where
  "ToString Undefined = ''undefined''"
| "ToString Null = ''null''"
| "ToString (Bool b) = (if b then ''true'' else ''false'')"
| "ToString (Num n) = Number_toString 10 n"
| "ToString (Str s) = s"
| "ToString (Arr xs) =
     join_with '','' (map (\<lambda>x. if x = Undefined \<or> x = Null then [] else ToString x) xs)"
| "ToString (Obj kvs) = ''[object Object]''"
| "ToString (Builtin k) = builtin_text k"

text \<open>
  \<open>parseInt(x, radix)\<close> for a radix given explicitly and other than 16: the text of
  \<open>x\<close>, leading (ASCII) white space dropped, an optional sign, then the longest run of digits of
  the radix; no digit at all gives \<open>NaN\<close>.
\<close>

definition is_space :: "char \<Rightarrow> bool" where
  "is_space c = (c \<in> set [CHR '' '', CHR 0x09, CHR 0x0A, CHR 0x0B, CHR 0x0C, CHR 0x0D])"

definition is_digit :: "nat \<Rightarrow> char \<Rightarrow> bool" where
  "is_digit radix c = (case digit_val c of Some d \<Rightarrow> d < radix | None \<Rightarrow> False)"

definition digits_value :: "nat \<Rightarrow> string \<Rightarrow> nat" where
  "digits_value radix ds = foldl (\<lambda>a c. a * radix + the (digit_val c)) 0 ds"

definition parseInt :: "jsval \<Rightarrow> nat \<Rightarrow> jsnum" where
  "parseInt x radix =
     (let s = dropWhile is_space (ToString x);
          negative = (case s of c # r \<Rightarrow> c = CHR ''-'' | [] \<Rightarrow> False);
          s' = (case s of c # r \<Rightarrow> if c = CHR ''-'' \<or> c = CHR ''+'' then r else s | [] \<Rightarrow> s);
          ds = takeWhile (is_digit radix) s'
      in if ds = [] then NaN
         else Fin (if negative then - int (digits_value radix ds) else int (digits_value radix ds)))"

text \<open>
  The binary \<open>+\<close>: objects and arrays become their text first; if either side is a
  string the texts are joined, otherwise the numbers are added. \<open>num_of_prim\<close> is the
  number of a primitive that is not a string (the addition passes it no other).
\<close>

definition ToPrimitive :: "jsval \<Rightarrow> jsval" where
  "ToPrimitive v =
     (case v of Arr xs \<Rightarrow> Str (ToString v) | Obj kvs \<Rightarrow> Str (ToString v)
      | Builtin k \<Rightarrow> Str (ToString v) | _ \<Rightarrow> v)"

definition num_of_prim :: "jsval \<Rightarrow> jsnum" where
  "num_of_prim v =
     (case v of Num n \<Rightarrow> n | Null \<Rightarrow> Fin 0 | Bool b \<Rightarrow> Fin (if b then 1 else 0) | _ \<Rightarrow> NaN)"

definition js_plus :: "jsval \<Rightarrow> jsval \<Rightarrow> jsval" where
  "js_plus a b =
     (let pa = ToPrimitive a; pb = ToPrimitive b;
          is_str = (\<lambda>v. case v of Str s \<Rightarrow> True | _ \<Rightarrow> False)
      in if is_str pa \<or> is_str pb then Str (ToString pa @ ToString pb)
         else Num (num_add (num_of_prim pa) (num_of_prim pb)))"

subsection \<open>Objects\<close>

text \<open>
  Reading \<open>o[k]\<close> on a plain object: the own property, else what \<open>Object.prototype\<close>
  provides under that name, else \<open>undefined\<close>.
\<close>

definition obj_prop :: "obj \<Rightarrow> string \<Rightarrow> jsval" where
  "obj_prop ob k =
     (case map_of ob k of
        Some v \<Rightarrow> v
      | None \<Rightarrow> if k \<in> set Object_prototype_names then Builtin k else Undefined)"

text \<open>
  Writing \<open>o[k] = v\<close> on a plain object: an own property keeps its place, a new one goes
  last; \<open>__proto__\<close> is the inherited setter, which creates no own property.
\<close>

fun obj_update :: "obj \<Rightarrow> string \<Rightarrow> jsval \<Rightarrow> obj" where
  "obj_update [] k v = [(k, v)]"
| "obj_update ((k', v') # rest) k v =
     (if k' = k then (k, v) # rest else (k', v') # obj_update rest k v)"

definition obj_set :: "obj \<Rightarrow> string \<Rightarrow> jsval \<Rightarrow> obj" where
  "obj_set ob k v = (if k = ''__proto__'' then ob else obj_update ob k v)"

text \<open>The own enumerable properties of a value, as \<open>Object.keys\<close> and \<open>Object.assign\<close> see them.\<close>

definition index_props :: "'a list \<Rightarrow> ('a \<Rightarrow> jsval) \<Rightarrow> obj" where
  "index_props xs f = map (\<lambda>(i, x). (nat_digits 10 i, f x)) (zip [0..<length xs] xs)"

definition own_props :: "jsval \<Rightarrow> obj" where
  "own_props v =
     (case v of
        Obj kvs \<Rightarrow> kvs
      | Arr xs \<Rightarrow> index_props xs (\<lambda>x. x)
      | Str s \<Rightarrow> index_props s (\<lambda>c. Str [c])
      | _ \<Rightarrow> [])"

text \<open>
  \<open>value[k]\<close> and \<open>value[k] = v\<close> on any value. Reading from \<open>null\<close> or \<open>undefined\<close>
  raises; so does writing to them and, in strict mode, writing to a primitive. The
  built-in properties of strings, numbers, booleans and arrays (\<open>length\<close> and their
  prototypes' methods) are not modelled.
\<close>

definition js_get :: "jsval \<Rightarrow> string \<Rightarrow> error + jsval" where
  "js_get v k =
     (case v of
        Undefined \<Rightarrow> Inl TypeError
      | Null \<Rightarrow> Inl TypeError
      | Obj kvs \<Rightarrow> Inr (obj_prop kvs k)
      | Arr xs \<Rightarrow> Inr (case map_of (own_props v) k of Some x \<Rightarrow> x | None \<Rightarrow> Undefined)
      | Str s \<Rightarrow> Inr (case map_of (own_props v) k of Some x \<Rightarrow> x | None \<Rightarrow> Undefined)
      | _ \<Rightarrow> Inr Undefined)"

definition js_put :: "jsval \<Rightarrow> string \<Rightarrow> jsval \<Rightarrow> error + jsval" where
  "js_put v k x =
     (case v of
        Obj kvs \<Rightarrow> Inr (Obj (obj_set kvs k x))
      | Arr xs \<Rightarrow> Inr (Obj (obj_set (own_props v) k x))
      | _ \<Rightarrow> Inl TypeError)"


text \<open>\<open>Object.assign(target, ...sources)\<close> on a plain target.\<close>

definition Object_assign :: "obj \<Rightarrow> jsval list \<Rightarrow> obj" where
  "Object_assign target sources =
     fold (\<lambda>src t. fold (\<lambda>(k, v) t'. obj_set t' k v) (own_props src) t) sources target"

section \<open>The platform\<close>

text \<open>
  What the library takes from its host and from \<open>node:crypto\<close> is a parameter of the
  model: \<open>JSON.parse\<close> (\<open>None\<close> when it throws), \<open>JSON.stringify\<close> (\<open>None\<close> when it
  throws), and the key stream of AES-256 in counter mode, byte by byte, for a key and
  an initialisation vector. The clock is passed to each operation as \<open>now\<close>, the value
  \<open>nowSeconds()\<close> returns there.
\<close>

record platform =
  JSON_parse :: "string \<Rightarrow> jsval option"
  JSON_stringify :: "jsval \<Rightarrow> string option"
  aes_256_ctr :: "byte list \<Rightarrow> byte list \<Rightarrow> nat \<Rightarrow> byte"

text \<open>
  \<open>Buffer.concat([cipher.update(data), cipher.final()])\<close> in counter mode: every byte is
  combined with the key-stream byte of its position. \<open>createCipheriv\<close> and
  \<open>createDecipheriv\<close> refuse a key that is not 32 bytes and a vector that is not 16.
\<close>

definition ctr_apply :: "(nat \<Rightarrow> byte) \<Rightarrow> byte list \<Rightarrow> byte list" where
  "ctr_apply ks data = map (\<lambda>(i, b). b XOR ks i) (zip [0..<length data] data)"

section \<open>The cipher layer (crypto-utils)\<close>

definition text_of :: "bindata \<Rightarrow> string" where
  "text_of d = (case d of Txt s \<Rightarrow> s | Buf b \<Rightarrow> utf8_decode b)"

definition getSaltProperties :: "platform \<Rightarrow> jsval \<Rightarrow> error + jsval" where
  "getSaltProperties P salt =
     (case fromURLSafeBase64 salt (Some Utf8) of
        Inl e \<Rightarrow> Inl e
      | Inr raw \<Rightarrow>
          (case JSON_parse P (text_of raw) of
             None \<Rightarrow> Inl SyntaxError
           | Some props \<Rightarrow> Inr props))"

text \<open>
  \<open>createCipheriv\<close> and \<open>createDecipheriv\<close> with the key and the vector decoded from
  the secret: the key stream of the cipher, or the host's refusal of their lengths.
\<close>

definition createCipheriv :: "platform \<Rightarrow> bindata \<Rightarrow> bindata \<Rightarrow> error + (nat \<Rightarrow> byte)" where
  "createCipheriv P key iv =
     (case (key, iv) of
        (Buf k, Buf v) \<Rightarrow>
          if length k \<noteq> 32 then Inl RangeError
          else if length v \<noteq> 16 then Inl TypeError
          else Inr (aes_256_ctr P k v)
      | _ \<Rightarrow> Inl TypeError)"

definition encrypt :: "platform \<Rightarrow> string \<Rightarrow> jsval \<Rightarrow> error + string" where
  "encrypt P val salt =
     (case getSaltProperties P salt of
        Inl e \<Rightarrow> Inl e
      | Inr props \<Rightarrow>
     (case js_get props ''secretKey'' of
        Inl e \<Rightarrow> Inl e
      | Inr secretKey \<Rightarrow>
     (case js_get props ''iv'' of
        Inl e \<Rightarrow> Inl e
      | Inr iv \<Rightarrow>
     (case fromURLSafeBase64 secretKey None of
        Inl e \<Rightarrow> Inl e
      | Inr key \<Rightarrow>
     (case fromURLSafeBase64 iv None of
        Inl e \<Rightarrow> Inl e
      | Inr vec \<Rightarrow>
     (case createCipheriv P key vec of
        Inl e \<Rightarrow> Inl e
      | Inr cypher \<Rightarrow>
          (let encrypted = ctr_apply cypher (utf8_encode val)
           in Inr (toURLSafeBase64 (Buf encrypted)))))))))"

definition decrypt :: "platform \<Rightarrow> jsval \<Rightarrow> jsval \<Rightarrow> error + string" where
  "decrypt P val salt =
     (case getSaltProperties P salt of
        Inl e \<Rightarrow> Inl e
      | Inr props \<Rightarrow>
     (case js_get props ''secretKey'' of
        Inl e \<Rightarrow> Inl e
      | Inr secretKey \<Rightarrow>
     (case js_get props ''iv'' of
        Inl e \<Rightarrow> Inl e
      | Inr iv \<Rightarrow>
     (case fromURLSafeBase64 secretKey None of
        Inl e \<Rightarrow> Inl e
      | Inr key \<Rightarrow>
     (case fromURLSafeBase64 iv None of
        Inl e \<Rightarrow> Inl e
      | Inr vec \<Rightarrow>
     (case createCipheriv P key vec of
        Inl e \<Rightarrow> Inl e
      | Inr decipher \<Rightarrow>
     (case fromURLSafeBase64 val None of
        Inl e \<Rightarrow> Inl e
      | Inr data \<Rightarrow>
          (let decrpyted = ctr_apply decipher (case data of Buf b \<Rightarrow> b | Txt t \<Rightarrow> utf8_encode t)
           in Inr (utf8_decode decrpyted)))))))))"

section \<open>The token layer\<close>

definition YEAR_IN_SECONDS :: int where
  "YEAR_IN_SECONDS = 31557600"

definition DEFAULT_EXPIRATION_SECONDS :: int where
  "DEFAULT_EXPIRATION_SECONDS = 2592000"

text \<open>The messages of the errors, as the source writes them.\<close>

definition VALIDAT_NOT_NUMBER :: string where
  \<open>VALIDAT_NOT_NUMBER = ''"validAt" must be a number (of seconds since the UNIX epoch)''\<close>

definition VALIDAT_TOO_SOON :: string where
  \<open>VALIDAT_TOO_SOON = ''"validAt" must be no sooner than "now" in seconds since the UNIX epoch''\<close>

definition VALIDAT_TOO_FAR :: string where
  \<open>VALIDAT_TOO_FAR = ''"validAt" can not be more than a year into the future''\<close>

definition EXPIRESAT_NOT_NUMBER :: string where
  \<open>EXPIRESAT_NOT_NUMBER = ''"expiresAt" must be a number (of seconds since the UNIX epoch)''\<close>

definition EXPIRESAT_TOO_SOON :: string where
  \<open>EXPIRESAT_TOO_SOON = ''"expiresAt" must be no sooner than "now" in seconds since the UNIX epoch''\<close>

definition EXPIRESAT_BEFORE_VALIDAT :: string where
  \<open>EXPIRESAT_BEFORE_VALIDAT = ''"expiresAt" must not be before "validAt"''\<close>

definition EXPIRESAT_TOO_FAR :: string where
  \<open>EXPIRESAT_TOO_FAR = ''"expiresAt" can not be more than a year into the future from "validAt"''\<close>

definition TOKEN_VALIDAT_AFTER_EXPIRESAT :: string where
  \<open>TOKEN_VALIDAT_AFTER_EXPIRESAT = ''Token "validAt" is greater than "expiresAt"''\<close>

definition BAD_SECRET :: string where
  \<open>BAD_SECRET = ''Bad "encodedSecret" provided: "encodedSecret" must be a URL-safe base64 encoded JSON object containing valid "secretKey" and "iv" properties''\<close>

definition BAD_SECRET_KEY :: string where
  \<open>BAD_SECRET_KEY = ''Bad "encodedSecret" provided: "encodedSecret.secretKey" must be a Buffer with a length of 32 bytes''\<close>

definition BAD_SECRET_IV :: string where
  \<open>BAD_SECRET_IV = ''Bad "encodedSecret" provided: "encodedSecret.iv" must be a Buffer with a length of 16 bytes''\<close>

text \<open>\<open>Buffer.isBuffer(x) && x.length === n\<close>\<close>

definition isBuffer_of_length :: "bindata \<Rightarrow> nat \<Rightarrow> bool" where
  "isBuffer_of_length x n = (case x of Buf b \<Rightarrow> length b = n | Txt t \<Rightarrow> False)"

definition validateEncodedSecret :: "platform \<Rightarrow> jsval \<Rightarrow> error + unit" where
  "validateEncodedSecret P encodedSecret =
     (if \<not> truthy encodedSecret then Inl (createError BAD_SECRET ESECRET)
      else
     (case getSaltProperties P encodedSecret of
        Inl e \<Rightarrow> Inl (createError BAD_SECRET ESECRET)
      | Inr encodedSecretResult \<Rightarrow>
     (case js_get encodedSecretResult ''secretKey'' of
        Inl e \<Rightarrow> Inl e
      | Inr sk \<Rightarrow>
          if \<not> truthy sk then Inl (createError BAD_SECRET ESECRET)
          else
     (case js_get encodedSecretResult ''iv'' of
        Inl e \<Rightarrow> Inl e
      | Inr vec \<Rightarrow>
          if \<not> truthy vec then Inl (createError BAD_SECRET ESECRET)
          else
     (case fromURLSafeBase64 sk None of
        Inl e \<Rightarrow> Inl e
      | Inr secretKey \<Rightarrow>
          if \<not> isBuffer_of_length secretKey 32 then Inl (createError BAD_SECRET_KEY ESECRET)
          else
     (case fromURLSafeBase64 vec None of
        Inl e \<Rightarrow> Inl e
      | Inr iv \<Rightarrow>
          if \<not> isBuffer_of_length iv 16 then Inl (createError BAD_SECRET_IV ESECRET)
          else Inr ()))))))"

text \<open>\<open>validateOptions(now, options)\<close>, on the copy of the options that \<open>generateTWT\<close> made.\<close>

definition validateOptions :: "platform \<Rightarrow> int \<Rightarrow> obj \<Rightarrow> error + unit" where
  \<open>validateOptions P now options =
     (case obj_prop options ''validAt'' of
        Num validAt \<Rightarrow>
          if num_lt validAt (Fin now) then
            Inl (createError VALIDAT_TOO_SOON EVALIDAT)
          else if num_gt validAt (num_add (Fin now) (Fin YEAR_IN_SECONDS)) then
            Inl (createError VALIDAT_TOO_FAR EVALIDAT)
          else
            (case obj_prop options ''expiresAt'' of
               Num expiresAt \<Rightarrow>
                 if num_lt expiresAt (Fin now) then
                   Inl (createError EXPIRESAT_TOO_SOON EEXPIRESAT)
                 else if num_lt expiresAt validAt then
                   Inl (createError EXPIRESAT_BEFORE_VALIDAT EEXPIRESAT)
                 else if num_gt (num_sub expiresAt validAt) (Fin YEAR_IN_SECONDS) then
                   Inl (createError EXPIRESAT_TOO_FAR EEXPIRESAT)
                 else validateEncodedSecret P (obj_prop options ''encodedSecret'')
             | _ \<Rightarrow>
                 Inl (createError EXPIRESAT_NOT_NUMBER EEXPIRESAT))
      | _ \<Rightarrow> Inl (createError VALIDAT_NOT_NUMBER EVALIDAT))\<close>

text \<open>\<open>x.toString(36)\<close>: the radix matters for a number only.\<close>

definition toString36 :: "jsval \<Rightarrow> string" where
  "toString36 x = (case x of Num n \<Rightarrow> Number_toString 36 n | _ \<Rightarrow> ToString x)"

text \<open>
  The options of \<open>generateTWT\<close> after the defaults: a fresh copy of the caller's object,
  with \<open>validAt\<close> and \<open>expiresAt\<close> filled in where they are missing (or falsy).
\<close>

definition defaultedOptions :: "int \<Rightarrow> jsval \<Rightarrow> obj" where
  "defaultedOptions now options_arg =
     (let options = Object_assign [] [if truthy options_arg then options_arg else Obj []];
          options = (if \<not> truthy (obj_prop options ''validAt'')
                     then obj_set options ''validAt'' (Num (Fin now)) else options);
          options = (if \<not> truthy (obj_prop options ''expiresAt'')
                     then obj_set options ''expiresAt''
                            (js_plus (obj_prop options ''validAt'') (Num (Fin DEFAULT_EXPIRATION_SECONDS)))
                     else options)
      in options)"

definition generateTWT :: "platform \<Rightarrow> int \<Rightarrow> jsval \<Rightarrow> jsval \<Rightarrow> error + string" where
  "generateTWT P now props options_arg =
     (let options = defaultedOptions now options_arg in
      case validateOptions P now options of
        Inl e \<Rightarrow> Inl e
      | Inr u \<Rightarrow>
          (let claims = Object_assign []
                 [if truthy props then props else Obj [],
                  Obj [(''$'', Str (toString36 (obj_prop options ''validAt''))),
                       (''$$'', Str (toString36 (obj_prop options ''expiresAt'')))]]
           in case JSON_stringify P (Obj claims) of
                None \<Rightarrow> Inl (createError ''Serializing error: '' ESERIALIZE)
              | Some serialized \<Rightarrow>
                  (case encrypt P serialized (obj_prop options ''encodedSecret'') of
                     Inl e \<Rightarrow> Inl (createError ''Encryption error: '' EENCRYPTION)
                   | Inr token \<Rightarrow> Inr token)))"

text \<open>
  The second \<open>try\<close> block of \<open>verifyTWT\<close>: parse the decrypted text, then replace the two
  time fields by what \<open>parseInt\<close> makes of them. Whatever is thrown becomes \<open>EPARSE\<close>.
\<close>

definition parseClaims :: "platform \<Rightarrow> string \<Rightarrow> error + jsval" where
  "parseClaims P decrypted =
     (case JSON_parse P decrypted of
        None \<Rightarrow> Inl (createError ''Parsing error: '' EPARSE)
      | Some claims \<Rightarrow>
     (case js_get claims ''$'' of
        Inl e \<Rightarrow> Inl (createError ''Parsing error: '' EPARSE)
      | Inr v \<Rightarrow>
     (case js_put claims ''$'' (Num (parseInt v 36)) of
        Inl e \<Rightarrow> Inl (createError ''Parsing error: '' EPARSE)
      | Inr claims \<Rightarrow>
     (case js_get claims ''$$'' of
        Inl e \<Rightarrow> Inl (createError ''Parsing error: '' EPARSE)
      | Inr e \<Rightarrow>
     (case js_put claims ''$$'' (Num (parseInt e 36)) of
        Inl e \<Rightarrow> Inl (createError ''Parsing error: '' EPARSE)
      | Inr claims \<Rightarrow> Inr claims)))))"

text \<open>The structural checks of the two time fields, then the window checks with the clock drift.\<close>

definition checkTimes :: "int \<Rightarrow> jsnum \<Rightarrow> obj \<Rightarrow> error + unit" where
  \<open>checkTimes now allowableClockDriftSeconds claims =
     (case obj_prop claims ''$'' of
        Num validAt \<Rightarrow>
          if \<not> isFinite validAt \<or> num_le validAt (Fin 0) then Inl (createError ''Invalid token'' ETIME)
          else
     (case obj_prop claims ''$$'' of
        Num expiresAt \<Rightarrow>
          if \<not> isFinite expiresAt \<or> num_le expiresAt (Fin 0) then Inl (createError ''Invalid token'' ETIME)
          else if num_gt validAt expiresAt then
            Inl (createError TOKEN_VALIDAT_AFTER_EXPIRESAT ETIME)
          else
            (let validTime = num_sub (Fin now) validAt in
             if num_lt validTime (Fin 0) \<and> num_gt (num_abs validTime) allowableClockDriftSeconds then
               Inl (createError ''Token is not yet valid'' ETIME)
             else
               (let expireTime = num_sub expiresAt (Fin now) in
                if num_lt expireTime (Fin 0) \<and> num_gt (num_abs expireTime) allowableClockDriftSeconds then
                  Inl (createError ''Token has expired'' ETIME)
                else Inr ()))
      | _ \<Rightarrow> Inl (createError ''Invalid token'' ETIME))
      | _ \<Rightarrow> Inl (createError ''Invalid token'' ETIME))\<close>

text \<open>The name under which the loop of \<open>verifyTWT\<close> stores the claim \<open>key\<close>.\<close>

definition mappedKey :: "jsval \<Rightarrow> string \<Rightarrow> string" where
  "mappedKey keyMap key =
     (let mapped =
        (if truthy keyMap then
           (case js_get keyMap key of
              Inr v \<Rightarrow> if truthy v then ToString v else key
            | Inl e \<Rightarrow> key)
         else key);
        mapped = (if key = ''$'' then ''validAt'' else mapped);
        mapped = (if key = ''$$'' then ''expiresAt'' else mapped)
      in mapped)"

definition mapClaims :: "jsval \<Rightarrow> obj \<Rightarrow> obj" where
  "mapClaims keyMap claims =
     fold (\<lambda>key mappedClaims. obj_set mappedClaims (mappedKey keyMap key) (obj_prop claims key))
       (map fst claims) []"

text \<open>
  The drift tolerance: the option \<open>allowableClockDriftSeconds\<close> when it is a finite
  number, else 120.
\<close>

definition allowableClockDrift :: "jsval \<Rightarrow> int" where
  "allowableClockDrift v =
     (case v of Num n \<Rightarrow> (case n of Fin d \<Rightarrow> d | _ \<Rightarrow> 120) | _ \<Rightarrow> 120)"

definition verifyTWT :: "platform \<Rightarrow> int \<Rightarrow> jsval \<Rightarrow> jsval \<Rightarrow> error + obj" where
  "verifyTWT P now token options_arg =
     (let options = (case options_arg of
                       Str s \<Rightarrow> Obj [(''encodedSecret'', options_arg)]
                     | _ \<Rightarrow> if truthy options_arg then options_arg else Obj []);
          opt = (\<lambda>k. case js_get options k of Inr v \<Rightarrow> v | Inl e \<Rightarrow> Undefined);
          keyMap = opt ''keyMap'';
          allowableClockDriftSeconds = Fin (allowableClockDrift (opt ''allowableClockDriftSeconds''))
      in
      case validateEncodedSecret P (opt ''encodedSecret'') of
        Inl e \<Rightarrow> Inl e
      | Inr u \<Rightarrow>
     (case decrypt P token (opt ''encodedSecret'') of
        Inl e \<Rightarrow> Inl (createError ''Decryption error: '' EENCRYPTION)
      | Inr decrypted \<Rightarrow>
     (case parseClaims P decrypted of
        Inl e \<Rightarrow> Inl e
      | Inr parsed \<Rightarrow>
          (let claims = own_props parsed in
           case checkTimes now allowableClockDriftSeconds claims of
             Inl e \<Rightarrow> Inl e
           | Inr u \<Rightarrow>
               (let claims = obj_set claims ''expiresIn''
                       (Num (num_sub (num_of_prim (obj_prop claims ''$$''))
                                     (num_of_prim (obj_prop claims ''$''))))
                in Inr (mapClaims keyMap claims))))))"

section \<open>A platform to run the library on\<close>

text \<open>
  A concrete platform for evaluating the library: a JSON serialiser and parser for the
  fragment of JSON whose numbers are integer literals and whose strings use the
  two-character escapes and \<open>\u00XX\<close> below 80 (anything else the parser rejects),
  and the key stream of AES-256-CTR for the secret of the library's test suite, in its
  first 64 positions.
\<close>

definition hex_char :: "nat \<Rightarrow> char" where
  "hex_char d = (if d < 10 then char_of (48 + d) else char_of (87 + d))"

definition json_escape :: "char \<Rightarrow> string" where
  "json_escape c =
     (if c = CHR 0x22 then [CHR 0x5C, CHR 0x22]
      else if c = CHR 0x5C then [CHR 0x5C, CHR 0x5C]
      else if c = CHR 0x08 then [CHR 0x5C, CHR ''b'']
      else if c = CHR 0x0C then [CHR 0x5C, CHR ''f'']
      else if c = CHR 0x0A then [CHR 0x5C, CHR ''n'']
      else if c = CHR 0x0D then [CHR 0x5C, CHR ''r'']
      else if c = CHR 0x09 then [CHR 0x5C, CHR ''t'']
      else if (of_char c :: nat) < 32 then
        [CHR 0x5C, CHR ''u'', CHR ''0'', CHR ''0'', hex_char (of_char c div 16), hex_char (of_char c mod 16)]
      else [c])"

definition json_quote :: "string \<Rightarrow> string" where
  "json_quote s = CHR 0x22 # concat (map json_escape s) @ [CHR 0x22]"

fun stringify_value :: "jsval \<Rightarrow> string option" where
  "stringify_value Undefined = None"
| "stringify_value (Builtin k) = None"
| "stringify_value Null = Some ''null''"
| "stringify_value (Bool b) = Some (if b then ''true'' else ''false'')"
| "stringify_value (Num n) = Some (if isFinite n then Number_toString 10 n else ''null'')"
| "stringify_value (Str s) = Some (json_quote s)"
| "stringify_value (Arr xs) =
     Some (''['' @ join_with '','' (map (\<lambda>x. case stringify_value x of None \<Rightarrow> ''null'' | Some t \<Rightarrow> t) xs) @ '']'')"
| "stringify_value (Obj kvs) =
     Some (''{'' @ join_with '',''
        (concat (map (\<lambda>kv. case stringify_value (snd kv) of None \<Rightarrow> [] | Some t \<Rightarrow> [json_quote (fst kv) @ '':'' @ t]) kvs))
        @ ''}'')"

definition json_ws :: "char \<Rightarrow> bool" where
  "json_ws c = (c \<in> set [CHR '' '', CHR 0x09, CHR 0x0A, CHR 0x0D])"

definition unescape :: "char \<Rightarrow> char option" where
  "unescape e =
     (if e = CHR 0x22 then Some (CHR 0x22)
      else if e = CHR 0x5C then Some (CHR 0x5C)
      else if e = CHR ''/'' then Some (CHR ''/'')
      else if e = CHR ''b'' then Some (CHR 0x08)
      else if e = CHR ''f'' then Some (CHR 0x0C)
      else if e = CHR ''n'' then Some (CHR 0x0A)
      else if e = CHR ''r'' then Some (CHR 0x0D)
      else if e = CHR ''t'' then Some (CHR 0x09)
      else None)"

definition hex4 :: "string \<Rightarrow> nat option" where
  "hex4 s =
     (if length s = 4 \<and> list_all (is_digit 16) s then Some (digits_value 16 s) else None)"

fun parse_string_chars :: "string \<Rightarrow> string \<Rightarrow> (string \<times> string) option" where
  "parse_string_chars [] acc = None"
| "parse_string_chars (c # cs) acc =
     (if c = CHR 0x22 then Some (rev acc, cs)
      else if c = CHR 0x5C then
        (case cs of
           [] \<Rightarrow> None
         | e # cs' \<Rightarrow>
             (case unescape e of
                Some ch \<Rightarrow> parse_string_chars cs' (ch # acc)
              | None \<Rightarrow>
                  if e = CHR ''u'' then
                    (case hex4 (take 4 cs') of
                       Some n \<Rightarrow> if n < 128 then parse_string_chars (drop 4 cs') (char_of n # acc) else None
                     | None \<Rightarrow> None)
                  else None))
      else if (of_char c :: nat) < 32 then None
      else parse_string_chars cs (c # acc))"

definition parse_number :: "string \<Rightarrow> (jsval \<times> string) option" where
  "parse_number s =
     (let negative = (case s of c # r \<Rightarrow> c = CHR ''-'' | [] \<Rightarrow> False);
          s' = (if negative then tl s else s);
          ds = takeWhile (is_digit 10) s';
          rest = dropWhile (is_digit 10) s'
      in if ds = [] \<or> (length ds > 1 \<and> hd ds = CHR ''0'') then None
         else if (case rest of c # r \<Rightarrow> c \<in> set ''.eE'' | [] \<Rightarrow> False) then None
         else Some (Num (Fin (if negative then - int (digits_value 10 ds) else int (digits_value 10 ds))), rest))"

definition parse_literal :: "string \<Rightarrow> (jsval \<times> string) option" where
  "parse_literal s =
     (if take 4 s = ''null'' then Some (Null, drop 4 s)
      else if take 4 s = ''true'' then Some (Bool True, drop 4 s)
      else if take 5 s = ''false'' then Some (Bool False, drop 5 s)
      else parse_number s)"

fun parse_value :: "nat \<Rightarrow> string \<Rightarrow> (jsval \<times> string) option"
  and parse_elements :: "nat \<Rightarrow> string \<Rightarrow> jsval list \<Rightarrow> (jsval \<times> string) option"
  and parse_members :: "nat \<Rightarrow> string \<Rightarrow> obj \<Rightarrow> (jsval \<times> string) option"
where
  "parse_value 0 s = None"
| "parse_value (Suc n) s =
     (case dropWhile json_ws s of
        [] \<Rightarrow> None
      | c # cs \<Rightarrow>
          if c = CHR ''{'' then
            (case dropWhile json_ws cs of
               [] \<Rightarrow> None
             | d # r \<Rightarrow> if d = CHR ''}'' then Some (Obj [], r) else parse_members n cs [])
          else if c = CHR ''['' then
            (case dropWhile json_ws cs of
               [] \<Rightarrow> None
             | d # r \<Rightarrow> if d = CHR '']'' then Some (Arr [], r) else parse_elements n cs [])
          else if c = CHR 0x22 then
            (case parse_string_chars cs [] of
               None \<Rightarrow> None
             | Some (t, r) \<Rightarrow> Some (Str t, r))
          else parse_literal (c # cs))"
| "parse_elements 0 s acc = None"
| "parse_elements (Suc n) s acc =
     (case parse_value n s of
        None \<Rightarrow> None
      | Some (v, r) \<Rightarrow>
          (case dropWhile json_ws r of
             [] \<Rightarrow> None
           | c # r' \<Rightarrow>
               if c = CHR '','' then parse_elements n r' (acc @ [v])
               else if c = CHR '']'' then Some (Arr (acc @ [v]), r')
               else None))"
| "parse_members 0 s acc = None"
| "parse_members (Suc n) s acc =
     (case dropWhile json_ws s of
        [] \<Rightarrow> None
      | q # r \<Rightarrow>
          if q \<noteq> CHR 0x22 then None
          else
            (case parse_string_chars r [] of
               None \<Rightarrow> None
             | Some (k, r1) \<Rightarrow>
                 (case dropWhile json_ws r1 of
                    [] \<Rightarrow> None
                  | c # r2 \<Rightarrow>
                      if c \<noteq> CHR '':'' then None
                      else
                        (case parse_value n r2 of
                           None \<Rightarrow> None
                         | Some (v, r3) \<Rightarrow>
                             (case dropWhile json_ws r3 of
                                [] \<Rightarrow> None
                              | c' # r4 \<Rightarrow>
                                  if c' = CHR '','' then parse_members n r4 (obj_update acc k v)
                                  else if c' = CHR ''}'' then Some (Obj (obj_update acc k v), r4)
                                  else None)))))"

definition json_parse :: "string \<Rightarrow> jsval option" where
  "json_parse s =
     (case parse_value (Suc (length s)) s of
        None \<Rightarrow> None
      | Some (v, r) \<Rightarrow> if dropWhile json_ws r = [] then Some v else None)"

definition test_secretKey :: "byte list" where
  "test_secretKey = [
      126, 105, 69, 155, 43, 74, 235, 217, 81, 125, 191, 228, 251, 89, 118, 162, 20, 230,
      24, 157, 182, 254, 114, 116, 88, 36, 29, 181, 183, 147, 4, 52]"

definition test_iv :: "byte list" where
  "test_iv = [
      200, 91, 67, 205, 236, 225, 74, 212, 210, 149, 58, 90, 240, 82, 3, 73]"

definition test_keystream :: "byte list" where
  "test_keystream = [
      145, 246, 58, 196, 234, 74, 92, 176, 107, 61, 55, 22, 136, 116, 16, 68, 138, 145, 39,
      169, 108, 122, 250, 254, 229, 60, 149, 31, 60, 209, 91, 59, 202, 231, 35, 204, 206,
      151, 194, 240, 206, 82, 0, 62, 133, 191, 85, 101, 200, 184, 224, 222, 36, 135, 144,
      25, 15, 86, 169, 155, 114, 122, 43, 190]"

definition test_platform :: platform where
  "test_platform =
     \<lparr> JSON_parse = json_parse,
       JSON_stringify = stringify_value,
       aes_256_ctr = (\<lambda>key iv i.
          if key = test_secretKey \<and> iv = test_iv \<and> i < length test_keystream
          then test_keystream ! i else 0) \<rparr>"

text \<open>The \<open>encodedSecret\<close> of the library's test suite.\<close>

definition test_encodedSecret :: string where
  "test_encodedSecret = ''eyJzZWNyZXRLZXkiOiJmbWxGbXl0SzY5bFJmYl9rLTFsMm9oVG1HSjIyX25KMFdDUWR0YmVUQkRRPSIsIml2IjoieUZ0RHplemhTdFRTbFRwYThGSURTUT09In0=''"

text \<open>
  The decoded text of that secret; the token the library issues at the clock value
  1700000000 for the claims \<open>{u: 'test'}\<close> under the default options, with the text it
  encrypts; and the same token with its character at index 42 changed from \<open>j\<close> to
  \<open>H\<close>, with the text that decrypts to.
\<close>

definition test_secret_text :: string where
  \<open>test_secret_text = ''{"secretKey":"fmlFmytK69lRfb_k-1l2ohTmGJ22_nJ0WCQdtbeTBDQ=","iv":"yFtDzezhStTSlTpa8FIDSQ=="}''\<close>

definition test_secret_props :: jsval where
  "test_secret_props =
     Obj [(''secretKey'', Str ''fmlFmytK69lRfb_k-1l2ohTmGJ22_nJ0WCQdtbeTBDQ=''),
          (''iv'', Str ''yFtDzezhStTSlTpa8FIDSQ=='')]"

definition test_options :: jsval where
  "test_options = Obj [(''encodedSecret'', Str test_encodedSecret)]"

definition test_token :: string where
  "test_token = ''6tRP5tBoKNUYSRU6qlAyfqjiE50bH8LcyR6xOx7reUj_iESp9rW_''"

definition test_plaintext :: string where
  \<open>test_plaintext = ''{"u":"test","$":"s44we8","$$":"s5oge8"}''\<close>









definition open_token :: string where
  "open_token = ''6tRP5tBoKNUYSRU6qlAyfqjiE50bH8LcmA==''"

definition open_plaintext :: string where
  \<open>open_plaintext = ''{"u":"test","$":"s44we8"}''\<close>

section \<open>Objects and validation: basic facts\<close>

lemma map_of_obj_update:
  "map_of (obj_update ob k v) k' = (if k' = k then Some v else map_of ob k')"
  by (induction ob) auto

lemma obj_prop_obj_set:
  "k \<noteq> ''__proto__'' \<Longrightarrow> obj_prop (obj_set ob k v) k' = (if k' = k then v else obj_prop ob k')"
  by (simp add: obj_prop_def obj_set_def map_of_obj_update)


lemma validAt_defaulted:
  "truthy (obj_prop (defaultedOptions now opts) ''validAt'')
   \<or> obj_prop (defaultedOptions now opts) ''validAt'' = Num (Fin now)"
  by (simp add: defaultedOptions_def Let_def obj_prop_obj_set)

lemma expiresAt_defaulted:
  "truthy (obj_prop (defaultedOptions now opts) ''expiresAt'')
   \<or> obj_prop (defaultedOptions now opts) ''expiresAt''
       = js_plus (obj_prop (defaultedOptions now opts) ''validAt'') (Num (Fin DEFAULT_EXPIRATION_SECONDS))"
  by (simp add: defaultedOptions_def Let_def obj_prop_obj_set)

lemma generateTWT_validation_error:
  "validateOptions P now (defaultedOptions now opts) = Inl e \<Longrightarrow> generateTWT P now props opts = Inl e"
  by (simp add: generateTWT_def Let_def)

lemma validateOptions_validAt:
  assumes "\<forall>n. obj_prop ob ''validAt'' = Num (Fin n) \<longrightarrow> n < now \<or> n > now + YEAR_IN_SECONDS"
    and "obj_prop ob ''validAt'' \<noteq> Num NaN"
  shows "\<exists>m. validateOptions P now ob = Inl (TWTError m EVALIDAT)"
proof (cases "obj_prop ob ''validAt''")
  case (Num x)
  then show ?thesis using assms
    by (cases x) (auto simp: validateOptions_def createError_def num_gt_def)
qed (simp_all add: validateOptions_def createError_def)

lemma validateOptions_expiresAt:
  assumes "obj_prop ob ''validAt'' = Num (Fin va)" "now \<le> va" "va \<le> now + YEAR_IN_SECONDS"
    and "\<forall>e. obj_prop ob ''expiresAt'' = Num (Fin e) \<longrightarrow> e < now \<or> e < va \<or> e > va + YEAR_IN_SECONDS"
    and "obj_prop ob ''expiresAt'' \<noteq> Num NaN"
  shows "\<exists>m. validateOptions P now ob = Inl (TWTError m EEXPIRESAT)"
proof (cases "obj_prop ob ''expiresAt''")
  case (Num x)
  then show ?thesis using assms
    by (cases x) (auto simp: validateOptions_def createError_def num_gt_def num_sub_def)
qed (use assms in \<open>simp_all add: validateOptions_def createError_def num_gt_def\<close>)

text \<open>Unfolding rules for evaluating the option and object primitives on concrete values.\<close>

lemmas eval_obj = defaultedOptions_def Object_assign_def own_props_def obj_set_def obj_prop_def
  Object_prototype_names_def truthy_def Let_def js_plus_def ToPrimitive_def num_of_prim_def DEFAULT_EXPIRATION_SECONDS_def
  YEAR_IN_SECONDS_def

section \<open>Base 36 round trip\<close>

lemma digit_val_digit_char: "d < 36 \<Longrightarrow> digit_val (digit_char d) = Some d"
  by (auto simp: digit_val_def digit_char_def Let_def)

lemma is_digit_digit_char: "d < 36 \<Longrightarrow> is_digit 36 (digit_char d)"
  by (simp add: is_digit_def digit_val_digit_char)

lemma is_digit_not_space: "is_digit r c \<Longrightarrow> \<not> is_space c \<and> c \<noteq> CHR ''-'' \<and> c \<noteq> CHR ''+''"
  by (auto simp: is_digit_def is_space_def digit_val_def Let_def split: if_splits)

lemma nat_digits_all: "list_all (is_digit 36) (nat_digits 36 n)"
proof (induction "36::nat" n rule: nat_digits.induct)
  case (1 n)
  show ?case
  proof (cases "n < 36")
    case True
    then show ?thesis by (subst nat_digits.simps) (simp add: is_digit_digit_char)
  next
    case False
    then show ?thesis using 1
      by (subst nat_digits.simps) (simp add: is_digit_digit_char)
  qed
qed

lemma digits_value_snoc:
  "digits_value r (ds @ [c]) = digits_value r ds * r + the (digit_val c)"
  by (simp add: digits_value_def)

lemma digits_value_nat_digits: "digits_value 36 (nat_digits 36 n) = n"
proof (induction "36::nat" n rule: nat_digits.induct)
  case (1 n)
  show ?case
  proof (cases "n < 36")
    case True
    then show ?thesis by (subst nat_digits.simps) (simp add: digits_value_def digit_val_digit_char)
  next
    case False
    then show ?thesis using 1
      by (subst nat_digits.simps) (simp add: digits_value_snoc digit_val_digit_char)
  qed
qed

lemma nat_digits_nonempty: "nat_digits r n \<noteq> []"
  by (subst nat_digits.simps) simp

lemma parseInt_toString36:
  assumes "0 \<le> n"
  shows "parseInt (Str (toString36 (Num (Fin n)))) 36 = Fin n"
proof -
  let ?ds = "nat_digits 36 (nat n)"
  obtain c cs where ds: "?ds = c # cs"
    using nat_digits_nonempty [of 36 "nat n"] by (cases ?ds) auto
  have all: "list_all (is_digit 36) ?ds" by (rule nat_digits_all)
  then have c: "is_digit 36 c" using ds by simp
  have tw: "takeWhile (is_digit 36) ?ds = ?ds"
    using all by (simp add: list_all_iff)
  have "parseInt (Str ?ds) 36 = Fin (int (digits_value 36 ?ds))"
    using is_digit_not_space [OF c] tw
    unfolding ds by (simp add: parseInt_def Let_def)
  then show ?thesis using assms
    by (simp add: toString36_def Number_toString_def digits_value_nat_digits)
qed

section \<open>The cipher layer under a valid secret\<close>

lemma utf8_decode_encode: "utf8_decode (utf8_encode s) = s"
proof -
  have "char_of (unat (word_of_nat (of_char c) :: byte)) = c" for c
    by (simp add: unat_of_nat take_bit_eq_mod)
  then show ?thesis
    by (simp add: utf8_decode_def utf8_encode_def o_def)
qed

lemma length_ctr_apply: "length (ctr_apply ks bs) = length bs"
  by (simp add: ctr_apply_def)

lemma nth_ctr_apply: "i < length bs \<Longrightarrow> ctr_apply ks bs ! i = bs ! i XOR ks i"
  by (simp add: ctr_apply_def)

lemma ctr_apply_involution: "ctr_apply ks (ctr_apply ks bs) = bs"
  by (rule nth_equalityI) (simp_all add: length_ctr_apply nth_ctr_apply xor.assoc)

lemma valid_secret_cipher:
  assumes "validateEncodedSecret P es = Inr ()"
  shows "\<exists>key iv.
    (\<forall>v. encrypt P v es = Inr (toURLSafeBase64 (Buf (ctr_apply (aes_256_ctr P key iv) (utf8_encode v)))))
    \<and> (\<forall>t. decrypt P (Str t) es
            = Inr (utf8_decode (ctr_apply (aes_256_ctr P key iv) (base64_decode (convertBase64FromURLSafe t)))))
    \<and> (\<forall>t. (\<forall>s. t \<noteq> Str s) \<longrightarrow> decrypt P t es = Inl TypeError)"
proof -
  from assms obtain r sk vec key iv where
    "getSaltProperties P es = Inr r" "js_get r ''secretKey'' = Inr sk" "js_get r ''iv'' = Inr vec"
    "fromURLSafeBase64 sk None = Inr (Buf key)" "fromURLSafeBase64 vec None = Inr (Buf iv)"
    "length key = 32" "length iv = 16"
    by (auto simp: validateEncodedSecret_def isBuffer_of_length_def
        split: if_splits sum.splits bindata.splits)
  then have
    "encrypt P v es = Inr (toURLSafeBase64 (Buf (ctr_apply (aes_256_ctr P key iv) (utf8_encode v))))"
    "decrypt P (Str t) es
            = Inr (utf8_decode (ctr_apply (aes_256_ctr P key iv) (base64_decode (convertBase64FromURLSafe t))))"
    "(\<forall>s. t' \<noteq> Str s) \<longrightarrow> decrypt P t' es = Inl TypeError" for v t t'
    by (auto simp: encrypt_def decrypt_def createCipheriv_def fromURLSafeBase64_def Let_def
        split: jsval.splits)
  then show ?thesis by blast
qed

lemma decrypt_encrypt:
  assumes "validateEncodedSecret P es = Inr ()" "encrypt P v es = Inr t"
  shows "decrypt P (Str t) es = Inr v"
proof -
  from valid_secret_cipher [OF assms(1)] obtain key iv where
    e: "\<forall>v. encrypt P v es = Inr (toURLSafeBase64 (Buf (ctr_apply (aes_256_ctr P key iv) (utf8_encode v))))"
    and d: "\<forall>t. decrypt P (Str t) es
            = Inr (utf8_decode (ctr_apply (aes_256_ctr P key iv) (base64_decode (convertBase64FromURLSafe t))))"
    by blast
  from assms(2) e have "t = toURLSafeBase64 (Buf (ctr_apply (aes_256_ctr P key iv) (utf8_encode v)))"
    by simp
  then show ?thesis
    by (simp add: d toURLSafeBase64_def toBase64_def from_to_URLSafe base64_decode_encode
        ctr_apply_involution utf8_decode_encode)
qed



section \<open>Copies of objects\<close>


lemma obj_update_at:
  "k \<notin> fst ` set ob \<Longrightarrow> obj_update (ob @ (k, x) # rest) k v = ob @ (k, v) # rest"
  by (induction ob) auto





section \<open>The stages of verification\<close>

lemma verifyTWT_decrypted:
  assumes "validateEncodedSecret P (obj_prop opts ''encodedSecret'') = Inr ()"
    and "decrypt P token (obj_prop opts ''encodedSecret'') = Inr d"
  shows "verifyTWT P now token (Obj opts) =
    (case parseClaims P d of
       Inl e \<Rightarrow> Inl e
     | Inr parsed \<Rightarrow>
        (case checkTimes now (Fin (allowableClockDrift (obj_prop opts ''allowableClockDriftSeconds'')))
                (own_props parsed) of
           Inl e \<Rightarrow> Inl e
         | Inr u \<Rightarrow>
             Inr (mapClaims (obj_prop opts ''keyMap'')
                   (obj_set (own_props parsed) ''expiresIn''
                      (Num (num_sub (num_of_prim (obj_prop (own_props parsed) ''$$''))
                                    (num_of_prim (obj_prop (own_props parsed) ''$''))))))))"
  using assms by (simp add: verifyTWT_def Let_def js_get_def truthy_def split: sum.splits)

lemma checkTimes_finite:
  assumes "obj_prop c ''$'' = Num (Fin va)" "obj_prop c ''$$'' = Num (Fin ea)"
  shows "checkTimes now (Fin d) c =
     (if va \<le> 0 \<or> ea \<le> 0 then Inl (createError ''Invalid token'' ETIME)
      else if va > ea then Inl (createError TOKEN_VALIDAT_AFTER_EXPIRESAT ETIME)
      else if now - va < 0 \<and> \<bar>now - va\<bar> > d then Inl (createError ''Token is not yet valid'' ETIME)
      else if ea - now < 0 \<and> \<bar>ea - now\<bar> > d then Inl (createError ''Token has expired'' ETIME)
      else Inr ())"
  using assms
  by (auto simp: checkTimes_def isFinite_def num_le_def num_gt_def num_sub_def Let_def)


lemma parseClaims_object:
  assumes "JSON_parse P s = Some (Obj (C @ [(''$'', a), (''$$'', b)]))"
    and "''$'' \<notin> fst ` set C" "''$$'' \<notin> fst ` set C"
  shows "parseClaims P s
         = Inr (Obj (C @ [(''$'', Num (parseInt a 36)), (''$$'', Num (parseInt b 36))]))"
proof -
  have g1: "obj_prop (C @ [(''$'', a), (''$$'', b)]) ''$'' = a"
    using assms(2) by (simp add: obj_prop_def map_of_eq_None_iff [THEN iffD2] map_add_def)
  have u1: "obj_set (C @ [(''$'', a), (''$$'', b)]) ''$'' v = C @ [(''$'', v), (''$$'', b)]" for v
    using obj_update_at [OF assms(2), of a "[(''$$'', b)]" v] by (simp add: obj_set_def)
  have g2: "obj_prop (C @ [(''$'', v), (''$$'', b)]) ''$$'' = b" for v
    using assms(3) by (simp add: obj_prop_def map_of_eq_None_iff [THEN iffD2] map_add_def)
  have u2: "obj_set (C @ [(''$'', v), (''$$'', b)]) ''$$'' w = C @ [(''$'', v), (''$$'', w)]" for v w
    using obj_update_at [of "''$$''" "C @ [(''$'', v)]" b "[]" w] assms(3) by (simp add: obj_set_def)
  show ?thesis
    using assms(1) by (simp add: parseClaims_def js_get_def js_put_def g1 u1 g2 u2)
qed


section \<open>The renaming of the claims\<close>






section \<open>Generation followed by verification\<close>




section \<open>The library on the test platform\<close>

lemmas eval_char = char_of_def bit_Suc_0_iff

lemmas eval_b64 = fromURLSafeBase64_def convertBase64FromURLSafe_def URL_SAFE_ENCODING_KEYS_def
  base64_decode_def b64_sextets_def unbase64_def utf8_decode_def eval_char

lemma test_secret_decoded:
  "fromURLSafeBase64 (Str test_encodedSecret) (Some Utf8) = Inr (Txt test_secret_text)"
  by (simp add: test_encodedSecret_def test_secret_text_def eval_b64)

lemma test_secret_parsed: "json_parse test_secret_text = Some test_secret_props"
  by (simp add: test_secret_text_def test_secret_props_def json_parse_def json_ws_def unescape_def)

lemma test_secretKey_decoded:
  "fromURLSafeBase64 (Str ''fmlFmytK69lRfb_k-1l2ohTmGJ22_nJ0WCQdtbeTBDQ='') None = Inr (Buf test_secretKey)"
  by (simp add: test_secretKey_def eval_b64)

lemma test_iv_decoded:
  "fromURLSafeBase64 (Str ''yFtDzezhStTSlTpa8FIDSQ=='') None = Inr (Buf test_iv)"
  by (simp add: test_iv_def eval_b64)

lemma test_getSaltProperties:
  "getSaltProperties test_platform (Str test_encodedSecret) = Inr test_secret_props"
  by (simp add: getSaltProperties_def test_secret_decoded text_of_def test_platform_def test_secret_parsed)

lemma test_encodedSecret_truthy: "truthy (Str test_encodedSecret)"
  by (simp add: truthy_def test_encodedSecret_def)

lemma test_key_lengths: "length test_secretKey = 32" "length test_iv = 16"
  by (simp_all add: test_secretKey_def test_iv_def)

lemma test_secret_valid:
  "validateEncodedSecret test_platform (Str test_encodedSecret) = Inr ()"
  by (simp add: validateEncodedSecret_def test_getSaltProperties test_secret_props_def js_get_def
      obj_prop_def test_encodedSecret_truthy test_secretKey_decoded test_iv_decoded
      isBuffer_of_length_def test_key_lengths)
     (simp add: truthy_def)

lemma test_keystream_at:
  "i < 64 \<Longrightarrow> aes_256_ctr test_platform test_secretKey test_iv i = test_keystream ! i"
  by (simp add: test_platform_def test_keystream_def)

lemma test_decrypt:
  "decrypt test_platform (Str t) (Str test_encodedSecret)
   = Inr (utf8_decode (ctr_apply (aes_256_ctr test_platform test_secretKey test_iv)
            (base64_decode (convertBase64FromURLSafe t))))"
  by (simp add: decrypt_def test_getSaltProperties test_secret_props_def js_get_def obj_prop_def
      test_secretKey_decoded test_iv_decoded createCipheriv_def test_key_lengths)
     (simp add: fromURLSafeBase64_def)

lemma test_encrypt:
  "encrypt test_platform v (Str test_encodedSecret)
   = Inr (toURLSafeBase64 (Buf (ctr_apply (aes_256_ctr test_platform test_secretKey test_iv)
            (utf8_encode v))))"
  by (simp add: encrypt_def test_getSaltProperties test_secret_props_def js_get_def obj_prop_def
      test_secretKey_decoded test_iv_decoded createCipheriv_def test_key_lengths)

lemmas eval_ctr = ctr_apply_def test_platform_def test_keystream_def test_secretKey_def test_iv_def upt_rec


lemma test_token_encrypt:
  "encrypt test_platform test_plaintext (Str test_encodedSecret) = Inr test_token"
  by (simp add: test_encrypt)
     (simp add: test_token_def test_plaintext_def toURLSafeBase64_def toBase64_def
        convertBase64ToURLSafe_def URL_SAFE_ENCODING_KEYS_def utf8_encode_def b64_char_def
        eval_char eval_ctr)

lemmas eval_digits = toString36_def Number_toString_def nat_digits.simps digit_char_def eval_char


lemma test_parse:
  "json_parse test_plaintext
   = Some (Obj [(''u'', Str ''test''), (''$'', Str (toString36 (Num (Fin 1700000000)))),
       (''$$'', Str (toString36 (Num (Fin 1702592000))))])"
  by (simp add: test_plaintext_def json_parse_def json_ws_def unescape_def eval_digits)





lemma test_platform_JSON:
  "JSON_stringify test_platform = stringify_value" "JSON_parse test_platform = json_parse"
  by (simp_all add: test_platform_def)

lemma test_token_decrypt:
  "decrypt test_platform (Str test_token) (Str test_encodedSecret) = Inr test_plaintext"
  by (rule decrypt_encrypt [OF test_secret_valid test_token_encrypt])

lemma test_parseClaims:
  "parseClaims test_platform test_plaintext
   = Inr (Obj [(''u'', Str ''test''), (''$'', Num (Fin 1700000000)), (''$$'', Num (Fin 1702592000))])"
  using parseClaims_object [of test_platform test_plaintext "[(''u'', Str ''test'')]"
          "Str (toString36 (Num (Fin 1700000000)))" "Str (toString36 (Num (Fin 1702592000)))"]
  by (simp add: test_platform_JSON test_parse parseInt_toString36)

section \<open>The names of the output keys\<close>








lemma mappedKey_inherited:
  assumes "key \<in> set Object_prototype_names" "map_of km key = None"
  shows "mappedKey (Obj km) key = builtin_text key"
proof -
  have "key \<noteq> ''$''" "key \<noteq> ''$$''"
    using assms(1) by (auto simp: Object_prototype_names_def)
  then show ?thesis
    using assms
    by (simp add: mappedKey_def Let_def js_get_def obj_prop_def truthy_def [of "Obj km"]
        truthy_def [of "Builtin key"])
qed

lemma test_token_verify:
  "verifyTWT test_platform now (Str test_token) (Obj ((''encodedSecret'', Str test_encodedSecret) # others))
   = (case checkTimes now (Fin (allowableClockDrift
              (obj_prop ((''encodedSecret'', Str test_encodedSecret) # others) ''allowableClockDriftSeconds'')))
             [(''u'', Str ''test''), (''$'', Num (Fin 1700000000)), (''$$'', Num (Fin 1702592000))] of
        Inl e \<Rightarrow> Inl e
      | Inr u \<Rightarrow>
          Inr (mapClaims (obj_prop ((''encodedSecret'', Str test_encodedSecret) # others) ''keyMap'')
                [(''u'', Str ''test''), (''$'', Num (Fin 1700000000)), (''$$'', Num (Fin 1702592000)),
                 (''expiresIn'', Num (Fin 2592000))]))"
proof -
  let ?opts = "(''encodedSecret'', Str test_encodedSecret) # others"
  have secret: "validateEncodedSecret test_platform (obj_prop ?opts ''encodedSecret'') = Inr ()"
    by (simp add: obj_prop_def test_secret_valid)
  have dec: "decrypt test_platform (Str test_token) (obj_prop ?opts ''encodedSecret'') = Inr test_plaintext"
    by (simp add: obj_prop_def test_token_decrypt)
  show ?thesis
    by (simp add: verifyTWT_decrypted [OF secret dec] test_parseClaims own_props_def
        obj_prop_def [of "[(''u'', Str ''test''), (''$'', Num (Fin 1700000000)), (''$$'', Num (Fin 1702592000))]"]
        obj_set_def num_of_prim_def num_sub_def cong: sum.case_cong)
qed

lemma test_checkTimes:
  "checkTimes 1700000000 (Fin 120)
     [(''u'', Str ''test''), (''$'', Num (Fin 1700000000)), (''$$'', Num (Fin 1702592000))] = Inr ()"
  by (subst checkTimes_finite [of _ 1700000000 1702592000]) (simp_all add: obj_prop_def)

lemmas eval_mapClaims = mapClaims_def mappedKey_def js_get_def obj_prop_def obj_set_def truthy_def
  Let_def Object_prototype_names_def

lemma key_mapping_test_suite:
  "verifyTWT test_platform 1700000000 (Str test_token)
     (Obj [(''encodedSecret'', Str test_encodedSecret), (''keyMap'', Obj [(''u'', Str ''userID'')])])
   = Inr [(''userID'', Str ''test''), (''validAt'', Num (Fin 1700000000)),
          (''expiresAt'', Num (Fin 1702592000)), (''expiresIn'', Num (Fin 2592000))]"
  by (simp add: test_token_verify)
     (simp add: obj_prop_def Object_prototype_names_def allowableClockDrift_def test_checkTimes
        eval_mapClaims)

section \<open>Parse failures\<close>



lemma parseClaims_Obj:
  assumes "JSON_parse P d = Some (Obj kvs)"
  shows "parseClaims P d
         = Inr (Obj (obj_set (obj_set kvs ''$'' (Num (parseInt (obj_prop kvs ''$'') 36)))
                       ''$$'' (Num (parseInt (obj_prop kvs ''$$'') 36))))"
  using assms by (simp add: parseClaims_def js_get_def js_put_def obj_prop_obj_set)


lemmas eval_parseInt = parseInt_def is_space_def is_digit_def digit_val_def digits_value_def Let_def

lemma parseInt_undefined: "parseInt Undefined 36 = Fin 86464843759093"
  by (simp add: eval_parseInt)







lemma test_options_secret:
  "validateEncodedSecret test_platform (obj_prop [(''encodedSecret'', Str test_encodedSecret)] ''encodedSecret'') = Inr ()"
  "obj_prop [(''encodedSecret'', Str test_encodedSecret)] ''encodedSecret'' = Str test_encodedSecret"
  by (simp_all add: obj_prop_def test_secret_valid)

lemma open_decrypt:
  "decrypt test_platform (Str open_token) (Str test_encodedSecret) = Inr open_plaintext"
  by (simp add: test_decrypt)
     (simp add: open_token_def open_plaintext_def eval_b64 eval_ctr)

lemma open_parse:
  "json_parse open_plaintext = Some (Obj [(''u'', Str ''test''), (''$'', Str ''s44we8'')])"
  by (simp add: open_plaintext_def json_parse_def json_ws_def unescape_def)

lemma parseInt_s44we8: "parseInt (Str ''s44we8'') 36 = Fin 1700000000"
  by (simp add: eval_parseInt)

lemma missing_expiry_verifies:
  "verifyTWT test_platform 1700000000 (Str open_token) test_options
   = Inr [(''u'', Str ''test''), (''validAt'', Num (Fin 1700000000)),
          (''expiresAt'', Num (Fin 86464843759093)), (''expiresIn'', Num (Fin 86463143759093))]"
proof -
  have d: "decrypt test_platform (Str open_token)
              (obj_prop [(''encodedSecret'', Str test_encodedSecret)] ''encodedSecret'') = Inr open_plaintext"
    by (simp only: test_options_secret open_decrypt)
  have p: "JSON_parse test_platform open_plaintext
           = Some (Obj [(''u'', Str ''test''), (''$'', Str ''s44we8'')])"
    by (simp add: test_platform_JSON open_parse)
  have c: "parseClaims test_platform open_plaintext
           = Inr (Obj [(''u'', Str ''test''), (''$'', Num (Fin 1700000000)),
                       (''$$'', Num (Fin 86464843759093))])"
    by (simp add: parseClaims_Obj [OF p] obj_prop_def Object_prototype_names_def obj_set_def
        parseInt_s44we8 parseInt_undefined)
  have t: "checkTimes 1700000000 (Fin 120)
             [(''u'', Str ''test''), (''$'', Num (Fin 1700000000)), (''$$'', Num (Fin 86464843759093))]
           = Inr ()"
    by (subst checkTimes_finite [of _ 1700000000 86464843759093]) (simp_all add: obj_prop_def)
  show ?thesis
    unfolding test_options_def
    by (simp add: verifyTWT_decrypted [OF test_options_secret(1) d] c own_props_def
          obj_prop_def [of "[(''encodedSecret'', Str test_encodedSecret)]"]
          Object_prototype_names_def allowableClockDrift_def t cong: sum.case_cong)
       (simp add: own_props_def num_of_prim_def num_sub_def eval_mapClaims)
qed

section \<open>Tampered tokens\<close>








section \<open>Malformed secrets\<close>


lemma verifyTWT_secret_error:
  "validateEncodedSecret P (obj_prop opts ''encodedSecret'') = Inl e
   \<Longrightarrow> verifyTWT P now token (Obj opts) = Inl e"
  by (simp add: verifyTWT_def Let_def js_get_def truthy_def)


lemma null_secret:
  "getSaltProperties test_platform (Str ''bnVsbA=='') = Inr Null"
  by (simp add: getSaltProperties_def eval_b64 text_of_def test_platform_JSON)
     (simp add: json_parse_def json_ws_def parse_literal_def)

lemma null_secret_TypeError:
  "verifyTWT test_platform 1700000000 (Str test_token) (Obj [(''encodedSecret'', Str ''bnVsbA=='')])
   = Inl TypeError"
proof -
  have "validateEncodedSecret test_platform (Str ''bnVsbA=='') = Inl TypeError"
    by (simp add: validateEncodedSecret_def null_secret js_get_def) (simp add: truthy_def)
  then show ?thesis
    by (intro verifyTWT_secret_error) (simp add: obj_prop_def)
qed

section \<open>The claims\<close>



text \<open>
  C3. At generation time the rules are checked in order and the first failure wins.
  With the options as they stand after the defaults: unless \<open>validAt\<close> is a finite
  number between \<open>now\<close> and \<open>now + 31557600\<close>, \<open>generateTWT\<close> fails with \<open>EVALIDAT\<close>;
  otherwise, unless \<open>expiresAt\<close> is a finite number that is at least \<open>now\<close>, at least
  \<open>validAt\<close> and at most \<open>validAt + 31557600\<close>, it fails with \<open>EEXPIRESAT\<close>. Both hold
  whatever the secret, the claims and the platform are: the checks come before the
  check of \<open>encodedSecret\<close> and before any serialising or encrypting.
\<close>

theorem C3_generation_time_checks:
  "((\<forall>n. obj_prop (defaultedOptions now opts) ''validAt'' = Num (Fin n)
          \<longrightarrow> n < now \<or> n > now + YEAR_IN_SECONDS)
      \<longrightarrow> (\<exists>m. generateTWT P now props opts = Inl (TWTError m EVALIDAT)))
   \<and> (\<forall>va. obj_prop (defaultedOptions now opts) ''validAt'' = Num (Fin va)
          \<and> now \<le> va \<and> va \<le> now + YEAR_IN_SECONDS
          \<and> (\<forall>e. obj_prop (defaultedOptions now opts) ''expiresAt'' = Num (Fin e)
                 \<longrightarrow> e < now \<or> e < va \<or> e > va + YEAR_IN_SECONDS)
      \<longrightarrow> (\<exists>m. generateTWT P now props opts = Inl (TWTError m EEXPIRESAT)))"
proof (intro conjI impI allI)
  assume h: "\<forall>n. obj_prop (defaultedOptions now opts) ''validAt'' = Num (Fin n)
          \<longrightarrow> n < now \<or> n > now + YEAR_IN_SECONDS"
  have "obj_prop (defaultedOptions now opts) ''validAt'' \<noteq> Num NaN"
    using validAt_defaulted [of now opts] by (auto simp: truthy_def)
  from validateOptions_validAt [OF h this, of P]
  show "\<exists>m. generateTWT P now props opts = Inl (TWTError m EVALIDAT)"
    by (auto dest: generateTWT_validation_error)
next
  fix va
  assume h: "obj_prop (defaultedOptions now opts) ''validAt'' = Num (Fin va)
          \<and> now \<le> va \<and> va \<le> now + YEAR_IN_SECONDS
          \<and> (\<forall>e. obj_prop (defaultedOptions now opts) ''expiresAt'' = Num (Fin e)
                 \<longrightarrow> e < now \<or> e < va \<or> e > va + YEAR_IN_SECONDS)"
  have "obj_prop (defaultedOptions now opts) ''expiresAt'' \<noteq> Num NaN"
    using expiresAt_defaulted [of now opts] h
    by (auto simp: truthy_def js_plus_def ToPrimitive_def num_of_prim_def)
  with h validateOptions_expiresAt [of "defaultedOptions now opts" va now P]
  show "\<exists>m. generateTWT P now props opts = Inl (TWTError m EEXPIRESAT)"
    by (auto dest: generateTWT_validation_error)
qed

text \<open>
  The two failing calls of the test suite, with no secret at all: \<open>validAt\<close> one second
  in the past, and \<open>expiresAt\<close> before \<open>validAt\<close>.
\<close>

theorem C3_generation_time_checks_witness:
  "(\<exists>m. generateTWT test_platform 1700000000 (Obj [(''u'', Str ''test'')])
          (Obj [(''validAt'', Num (Fin 1699999999))]) = Inl (TWTError m EVALIDAT))
   \<and> (\<exists>m. generateTWT test_platform 1700000000 (Obj [(''u'', Str ''test'')])
          (Obj [(''validAt'', Num (Fin 1700000005)), (''expiresAt'', Num (Fin 1700000001))])
        = Inl (TWTError m EEXPIRESAT))"
proof -
  have a: "obj_prop (defaultedOptions 1700000000 (Obj [(''validAt'', Num (Fin 1699999999))])) ''validAt''
           = Num (Fin 1699999999)"
    by (simp add: eval_obj)
  have b: "obj_prop (defaultedOptions 1700000000
             (Obj [(''validAt'', Num (Fin 1700000005)), (''expiresAt'', Num (Fin 1700000001))])) ''validAt''
           = Num (Fin 1700000005)"
    by (simp add: eval_obj)
  have c: "obj_prop (defaultedOptions 1700000000
             (Obj [(''validAt'', Num (Fin 1700000005)), (''expiresAt'', Num (Fin 1700000001))])) ''expiresAt''
           = Num (Fin 1700000001)"
    by (simp add: eval_obj)
  show ?thesis
    using C3_generation_time_checks [of 1700000000 "Obj [(''validAt'', Num (Fin 1699999999))]"
            test_platform "Obj [(''u'', Str ''test'')]"]
          C3_generation_time_checks [of 1700000000
            "Obj [(''validAt'', Num (Fin 1700000005)), (''expiresAt'', Num (Fin 1700000001))]"
            test_platform "Obj [(''u'', Str ''test'')]"]
    by (simp add: a b c YEAR_IN_SECONDS_def)
qed

text \<open>
  C10. A string given as the second argument of \<open>verifyTWT\<close> is taken as the
  \<open>encodedSecret\<close>: the call behaves as with the options object that holds only it.
\<close>

theorem C10_string_options:
  "verifyTWT P now token (Str s) = verifyTWT P now token (Obj [(''encodedSecret'', Str s)])"
  by (simp add: verifyTWT_def truthy_def)

theorem C10_string_options_witness:
  "verifyTWT test_platform 1700000000 (Str ''abc'') (Str test_encodedSecret)
   = verifyTWT test_platform 1700000000 (Str ''abc'') (Obj [(''encodedSecret'', Str test_encodedSecret)])"
  using C10_string_options [of test_platform 1700000000 "Str ''abc''" test_encodedSecret] .





text \<open>
  C2. For a token that decrypts and parses to time fields \<open>validAt\<close> (\<open>$\<close>) and
  \<open>expiresAt\<close> (\<open>$$\<close>) that are finite, positive and in order, for every verifier
  clock \<open>now\<close> and with \<open>d\<close> the drift tolerance (the option
  \<open>allowableClockDriftSeconds\<close> when it is a finite number, else 120): \<open>verifyTWT\<close>
  fails as not yet valid exactly when \<open>now - validAt < 0\<close> and \<open>|now - validAt| > d\<close>,
  fails as expired exactly when \<open>expiresAt - now < 0\<close> and \<open>|expiresAt - now| > d\<close>, and
  otherwise returns claims.
\<close>

theorem C2_window_checks:
  assumes secret: "validateEncodedSecret P (obj_prop opts ''encodedSecret'') = Inr ()"
    and dec: "decrypt P token (obj_prop opts ''encodedSecret'') = Inr decrypted"
    and parsed: "parseClaims P decrypted = Inr parsed"
    and va: "obj_prop (own_props parsed) ''$'' = Num (Fin validAt)"
    and ea: "obj_prop (own_props parsed) ''$$'' = Num (Fin expiresAt)"
    and times: "0 < validAt" "0 < expiresAt" "validAt \<le> expiresAt"
    and d: "d = allowableClockDrift (obj_prop opts ''allowableClockDriftSeconds'')"
  shows "(verifyTWT P now token (Obj opts) = Inl (createError ''Token is not yet valid'' ETIME)
            \<longleftrightarrow> now - validAt < 0 \<and> \<bar>now - validAt\<bar> > d)
       \<and> (verifyTWT P now token (Obj opts) = Inl (createError ''Token has expired'' ETIME)
            \<longleftrightarrow> expiresAt - now < 0 \<and> \<bar>expiresAt - now\<bar> > d)
       \<and> (\<not> (now - validAt < 0 \<and> \<bar>now - validAt\<bar> > d)
            \<and> \<not> (expiresAt - now < 0 \<and> \<bar>expiresAt - now\<bar> > d)
            \<longrightarrow> (\<exists>claims. verifyTWT P now token (Obj opts) = Inr claims))
       \<and> (\<forall>x. obj_prop opts ''allowableClockDriftSeconds'' = Num (Fin x) \<longrightarrow> d = x)
       \<and> ((\<forall>x. obj_prop opts ''allowableClockDriftSeconds'' \<noteq> Num (Fin x)) \<longrightarrow> d = 120)"
proof -
  have drift: "(\<forall>x. obj_prop opts ''allowableClockDriftSeconds'' = Num (Fin x) \<longrightarrow> d = x)
       \<and> ((\<forall>x. obj_prop opts ''allowableClockDriftSeconds'' \<noteq> Num (Fin x)) \<longrightarrow> d = 120)"
    unfolding d by (auto simp: allowableClockDrift_def split: jsval.splits jsnum.splits)
  have v: "verifyTWT P now token (Obj opts) =
      (if now - validAt < 0 \<and> \<bar>now - validAt\<bar> > d then Inl (createError ''Token is not yet valid'' ETIME)
       else if expiresAt - now < 0 \<and> \<bar>expiresAt - now\<bar> > d then Inl (createError ''Token has expired'' ETIME)
       else Inr (mapClaims (obj_prop opts ''keyMap'')
                   (obj_set (own_props parsed) ''expiresIn'' (Num (Fin (expiresAt - validAt))))))"
    using times
    by (auto simp: verifyTWT_decrypted [OF secret dec] parsed checkTimes_finite [OF va ea] d va ea
        num_of_prim_def num_sub_def)
  show ?thesis
    using drift times by (auto simp: v createError_def)
qed


text \<open>
  The token of the test suite at the four boundaries: 121 and 120 seconds before
  \<open>validAt\<close>, 120 and 121 seconds after \<open>expiresAt\<close>.
\<close>

theorem C2_window_checks_witness:
  "verifyTWT test_platform 1699999879 (Str test_token) test_options
     = Inl (createError ''Token is not yet valid'' ETIME)
   \<and> (\<exists>claims. verifyTWT test_platform 1699999880 (Str test_token) test_options = Inr claims)
   \<and> (\<exists>claims. verifyTWT test_platform 1702592120 (Str test_token) test_options = Inr claims)
   \<and> verifyTWT test_platform 1702592121 (Str test_token) test_options
     = Inl (createError ''Token has expired'' ETIME)"
proof -
  let ?opts = "[(''encodedSecret'', Str test_encodedSecret)]"
  have secret: "validateEncodedSecret test_platform (obj_prop ?opts ''encodedSecret'') = Inr ()"
    by (simp add: obj_prop_def test_secret_valid)
  have dec: "decrypt test_platform (Str test_token) (obj_prop ?opts ''encodedSecret'') = Inr test_plaintext"
    by (simp add: obj_prop_def test_token_decrypt)
  have va: "obj_prop (own_props (Obj [(''u'', Str ''test''), (''$'', Num (Fin 1700000000)),
              (''$$'', Num (Fin 1702592000))])) ''$'' = Num (Fin 1700000000)"
    and ea: "obj_prop (own_props (Obj [(''u'', Str ''test''), (''$'', Num (Fin 1700000000)),
              (''$$'', Num (Fin 1702592000))])) ''$$'' = Num (Fin 1702592000)"
    by (simp_all add: own_props_def obj_prop_def)
  have d: "(120::int) = allowableClockDrift (obj_prop ?opts ''allowableClockDriftSeconds'')"
    by (simp add: obj_prop_def Object_prototype_names_def allowableClockDrift_def)
  note w = C2_window_checks [OF secret dec test_parseClaims va ea _ _ _ d]
  show ?thesis
    using w [of 1699999879] w [of 1699999880] w [of 1702592120] w [of 1702592121]
    by (simp add: test_options_def)
qed















end
